theory Spec2Isabelle
  imports Main "HOL-Library.Sublist" "HOL-Library.AList"
begin

section \<open>Strings and arrays of the host language\<close>

text \<open>
  A JavaScript string is a sequence of UTF-16 code units. Two kinds of strings occur in
  the script:
  \<^item> strings that are only compared for equality or passed on (ids, keys, URLs, theme
    names): such a string is kept as a \<^typ>\<open>string\<close>, which stands for its UTF-8
    encoding; the encoding is injective, so equality is the equality of the script;
  \<^item> the titles, whose characters the search inspects: a title has the type
    \<open>code_units\<close>, the list of its code units, each an integer from 0 to 65535.

  \<open>trim\<close> and \<open>includes\<close> are the methods of \<open>String.prototype\<close> on code units.
  \<open>toLowerCase\<close> follows the case tables of Unicode and depends on the context of a
  character; it is a function that the environment supplies (a field of the record
  \<open>environment\<close> below), and nothing is assumed about it.
\<close>

type_synonym code_units = "int list"

definition isWhiteSpace :: "int \<Rightarrow> bool" where
  \<comment> \<open>the code units of WhiteSpace and LineTerminator, which \<open>trim\<close> strips: TAB, LF,
      VT, FF, CR, SPACE, U+00A0, U+1680, U+2000 to U+200A, U+2028, U+2029, U+202F,
      U+205F, U+3000 and U+FEFF\<close>
  "isWhiteSpace c =
     (c \<in> {9, 10, 11, 12, 13, 32, 160, 5760, 8232, 8233, 8239, 8287, 12288, 65279} \<or>
      (8192 \<le> c \<and> c \<le> 8202))"

definition trim :: "code_units \<Rightarrow> code_units" where
  "trim s = rev (dropWhile isWhiteSpace (rev (dropWhile isWhiteSpace s)))"

fun includes_string :: "code_units \<Rightarrow> code_units \<Rightarrow> bool" where
  \<comment> \<open>\<open>s.includes(search)\<close>: \<open>search\<close> starts at some position of \<open>s\<close>\<close>
  "includes_string [] search = (search = [])"
| "includes_string (c # cs) search = (prefix search (c # cs) \<or> includes_string cs search)"

definition includes_array :: "'a list \<Rightarrow> 'a \<Rightarrow> bool" where
  "includes_array xs x = (x \<in> set xs)"

definition slice :: "'a list \<Rightarrow> nat \<Rightarrow> nat \<Rightarrow> 'a list" where
  \<comment> \<open>\<open>Array.prototype.slice\<close> on two non-negative integers: both are clamped to the
      length, and the elements from \<open>k\<close> up to \<open>final\<close> are copied\<close>
  "slice xs start end =
     (let len = length xs; k = min start len; final = min end len
      in map (\<lambda>i. xs ! i) [k..<final])"


section \<open>The dataset of data.js\<close>

record book =
  author :: string
  book_id :: string
  image :: string
  title :: code_units
  description :: string
  published :: string
  genres :: "string list"

text \<open>
  The module \<open>data.js\<close> exports \<open>books\<close>, \<open>authors\<close>, \<open>genres\<close> and \<open>BOOKS_PER_PAGE\<close>;
  its text is not part of the sources, so the four are parameters of every function
  that reads them. An object used as a mapping (\<open>authors\<close>, \<open>genres\<close>) is the list of
  its entries in the order of \<open>Object.entries\<close>; a property access is \<^const>\<open>map_of\<close>,
  with \<^const>\<open>None\<close> for \<open>undefined\<close>. \<open>BOOKS_PER_PAGE\<close> is a natural number.
\<close>

record dataset =
  books :: "book list"
  authors :: "(string \<times> string) list"
  genres :: "(string \<times> string) list"
  BOOKS_PER_PAGE :: nat


section \<open>Elements\<close>

text \<open>
  The markup written to an element is one of the template literals of the script, kept
  with the values it interpolates, or a plain string:
  \<^item> \<open>Text s\<close>: the string \<open>s\<close>;
  \<^item> \<open>PreviewHtml image title name\<close>: the preview template with \<open>${image}\<close>,
    \<open>${title}\<close> and \<open>${authors[author]}\<close>;
  \<^item> \<open>ShowMoreHtml n\<close>: the template of the list button with the number \<open>n\<close>
    in the span \<open>list__remaining\<close>;
  \<^item> \<open>SubtitleText name published\<close>: \<open>${authors[book.author]} (${year})\<close>, where
    \<open>year\<close> is read from the date \<open>published\<close>.
\<close>

datatype markup =
  Text string
| PreviewHtml string code_units "string option"
| ShowMoreHtml int
| SubtitleText "string option" string

record element =
  tag :: string
  attributes :: "(string \<times> string) list"
  innerHTML :: markup

definition setAttribute :: "element \<Rightarrow> string \<Rightarrow> string \<Rightarrow> element" where
  "setAttribute element key val =
     element\<lparr>attributes := AList.update key val (attributes element)\<rparr>"

definition createElement :: "string \<Rightarrow> (string \<times> string) list \<Rightarrow> markup \<Rightarrow> element" where
  "createElement tg attrs inner =
     (let element = \<lparr>tag = tg, attributes = [], innerHTML = Text []\<rparr>;
          element = foldl (\<lambda>e (key, val). setAttribute e key val) element attrs
      in element\<lparr>innerHTML := inner\<rparr>)"

definition appendElements :: "element list \<Rightarrow> element list \<Rightarrow> element list" where
  \<comment> \<open>the parent is the list of its children; the fragment collects the new ones first\<close>
  "appendElements parent elements =
     (let fragment = foldl (\<lambda>fragment element. fragment @ [element]) [] elements
      in parent @ fragment)"

definition createBookPreviews :: "book list \<Rightarrow> (string \<times> string) list \<Rightarrow> element list" where
  "createBookPreviews bs auths =
     map (\<lambda>b. createElement ''button''
                 [(''class'', ''preview''), (''data-preview'', book_id b)]
                 (PreviewHtml (image b) (book.title b) (map_of auths (book.author b)))) bs"

definition createOptions :: "(string \<times> string) list \<Rightarrow> string \<Rightarrow> element list" where
  "createOptions data defaultOptionText =
     foldl (\<lambda>options (ident, name).
              options @ [createElement ''option'' [(''value'', ident)] (Text name)])
           [createElement ''option'' [(''value'', ''any'')] (Text defaultOptionText)]
           data"


section \<open>The state of the page\<close>

text \<open>
  The two variables of the module, \<open>page\<close> and \<open>matches\<close>, and the parts of the
  document the script reads or writes, each named after the \<open>data-\<close> attribute the
  script selects it by.
\<close>

record state =
  page :: nat
  matches :: "book list"
  list_items :: "element list"
  list_button_disabled :: bool
  list_button_innerHTML :: markup
  list_message_show :: bool
  search_overlay_open :: bool
  settings_overlay_open :: bool
  list_active_open :: bool
  list_blur_src :: string
  list_image_src :: string
  list_title :: code_units
  list_subtitle :: markup
  list_description :: string
  search_genres :: "element list"
  search_authors :: "element list"
  settings_theme :: string
  color_dark :: string
  color_light :: string

text \<open>
  What the browser supplies: the media query of the theme and the lower-casing of
  strings.
\<close>

record environment =
  matchMedia :: "bool option"
    \<comment> \<open>\<^const>\<open>None\<close>: \<open>window.matchMedia\<close> is missing; \<open>Some m\<close>: the query
        \<open>(prefers-color-scheme: dark)\<close> has \<open>matches = m\<close>\<close>
  toLowerCase :: "code_units \<Rightarrow> code_units"
    \<comment> \<open>\<open>String.prototype.toLowerCase\<close>, applied to a whole string\<close>


section \<open>Theme\<close>

definition applyTheme :: "environment \<Rightarrow> state \<Rightarrow> state" where
  "applyTheme env s =
     (let prefersDarkScheme = (case matchMedia env of None \<Rightarrow> False | Some m \<Rightarrow> m);
          theme = (if prefersDarkScheme then ''night'' else ''day'');
          colorDark = (if theme = ''night'' then ''255, 255, 255'' else ''10, 10, 20'');
          colorLight = (if theme = ''night'' then ''10, 10, 20'' else ''255, 255, 255'')
      in s\<lparr>settings_theme := theme, color_dark := colorDark, color_light := colorLight\<rparr>)"

definition settings_form_submit :: "environment \<Rightarrow> string \<Rightarrow> state \<Rightarrow> state" where
  \<comment> \<open>the listener of \<open>[data-settings-form]\<close>; \<open>theme\<close> is the field of the form\<close>
  "settings_form_submit env theme s =
     (let s = s\<lparr>settings_theme := theme\<rparr>;
          s = applyTheme env s
      in s\<lparr>settings_overlay_open := False\<rparr>)"


section \<open>Handlers\<close>

record filters =
  genre :: string
  title :: code_units
  author :: string

definition book_matches :: "environment \<Rightarrow> filters \<Rightarrow> book \<Rightarrow> bool" where
  \<comment> \<open>the callback handed to \<open>books.filter\<close>\<close>
  "book_matches env fs b =
     (let genreMatch = (filters.genre fs = ''any'' \<or> includes_array (book.genres b) (filters.genre fs));
          titleMatch = (trim (filters.title fs) = [] \<or>
                        includes_string (toLowerCase env (book.title b))
                          (toLowerCase env (filters.title fs)));
          authorMatch = (filters.author fs = ''any'' \<or> book.author b = filters.author fs)
      in genreMatch \<and> titleMatch \<and> authorMatch)"

definition handleSearch :: "dataset \<Rightarrow> environment \<Rightarrow> filters \<Rightarrow> state \<Rightarrow> state" where
  "handleSearch d env fs s =
     (let ms = filter (book_matches env fs) (books d);
          newItems = createBookPreviews (slice ms 0 (BOOKS_PER_PAGE d)) (authors d)
      in s\<lparr>matches := ms,
           page := 1,
           list_items := appendElements [] newItems,
           list_button_disabled := (length ms \<le> BOOKS_PER_PAGE d),
           list_button_innerHTML := ShowMoreHtml (max (int (length ms) - int (BOOKS_PER_PAGE d)) 0),
           list_message_show := (if length ms < 1 then True else False),
           search_overlay_open := False\<rparr>)"

definition handleShowMore :: "dataset \<Rightarrow> state \<Rightarrow> state" where
  "handleShowMore d s =
     (let start = page s * BOOKS_PER_PAGE d;
          end = (page s + 1) * BOOKS_PER_PAGE d;
          newItems = createBookPreviews (slice (matches s) start end) (authors d)
      in s\<lparr>list_items := appendElements (list_items s) newItems,
           page := page s + 1,
           list_button_disabled := (length (matches s) \<le> end),
           list_button_innerHTML := ShowMoreHtml (max (int (length (matches s)) - int end) 0)\<rparr>)"

record node =
  dataset_of :: "(string \<times> string) list option"
    \<comment> \<open>\<open>node.dataset\<close>: \<^const>\<open>None\<close> where the node has none (the document, the window)\<close>

definition dataset_preview :: "node \<Rightarrow> string option" where
  \<comment> \<open>\<open>node.dataset?.preview\<close>\<close>
  "dataset_preview n = (case dataset_of n of None \<Rightarrow> None | Some ds \<Rightarrow> map_of ds ''preview'')"

definition truthy :: "string option \<Rightarrow> bool" where
  "truthy v = (case v of None \<Rightarrow> False | Some str \<Rightarrow> str \<noteq> [])"

definition active_of :: "node list \<Rightarrow> string option" where
  \<comment> \<open>\<open>pathArray.find(node => node.dataset?.preview)?.dataset.preview\<close>\<close>
  "active_of pathArray =
     (case find (\<lambda>n. truthy (dataset_preview n)) pathArray of
        None \<Rightarrow> None
      | Some n \<Rightarrow> dataset_preview n)"

definition find_book :: "dataset \<Rightarrow> string option \<Rightarrow> book option" where
  \<comment> \<open>\<open>books.find(book => book.id === active)\<close>\<close>
  "find_book d active = find (\<lambda>b. Some (book_id b) = active) (books d)"

definition handleBookClick :: "dataset \<Rightarrow> node list \<Rightarrow> state \<Rightarrow> state" where
  "handleBookClick d pathArray s =
     (let active = active_of pathArray
      in case find_book d active of
           None \<Rightarrow> s
         | Some b \<Rightarrow>
             s\<lparr>list_active_open := True,
               list_blur_src := image b,
               list_image_src := image b,
               list_title := book.title b,
               list_subtitle := SubtitleText (map_of (authors d) (book.author b)) (published b),
               list_description := description b\<rparr>)"


section \<open>Initialization and the event loop\<close>

definition initialize :: "dataset \<Rightarrow> environment \<Rightarrow> state \<Rightarrow> state" where
  "initialize d env s =
     (let initialPreviews = createBookPreviews (slice (matches s) 0 (BOOKS_PER_PAGE d)) (authors d);
          s = s\<lparr>list_items := appendElements (list_items s) initialPreviews\<rparr>;
          genreOptions = createOptions (dataset.genres d) ''All Genres'';
          s = s\<lparr>search_genres := appendElements (search_genres s) genreOptions\<rparr>;
          authorOptions = createOptions (authors d) ''All Authors'';
          s = s\<lparr>search_authors := appendElements (search_authors s) authorOptions\<rparr>
      in applyTheme env s)"

definition load :: "dataset \<Rightarrow> environment \<Rightarrow> state \<Rightarrow> state" where
  \<comment> \<open>running the module on the document \<open>doc\<close>: \<open>let page = 1; let matches = books\<close>,
      then \<open>initialize()\<close>\<close>
  "load d env doc = initialize d env (doc\<lparr>page := 1, matches := books d\<rparr>)"

datatype event =
  SearchCancel
| SettingsCancel
| HeaderSearch
| HeaderSettings
| ListClose
| SettingsSubmit string
| SearchSubmit filters
| ShowMore
| BookClick "node list"

fun dispatch :: "dataset \<Rightarrow> environment \<Rightarrow> state \<Rightarrow> event \<Rightarrow> state" where
  \<comment> \<open>the listeners bound by \<open>setupEventListeners\<close>\<close>
  "dispatch d env s SearchCancel = s\<lparr>search_overlay_open := False\<rparr>"
| "dispatch d env s SettingsCancel = s\<lparr>settings_overlay_open := False\<rparr>"
| "dispatch d env s HeaderSearch = s\<lparr>search_overlay_open := True\<rparr>"
| "dispatch d env s HeaderSettings = s\<lparr>settings_overlay_open := True\<rparr>"
| "dispatch d env s ListClose = s\<lparr>list_active_open := False\<rparr>"
| "dispatch d env s (SettingsSubmit theme) = settings_form_submit env theme s"
| "dispatch d env s (SearchSubmit fs) = handleSearch d env fs s"
| "dispatch d env s ShowMore = handleShowMore d s"
| "dispatch d env s (BookClick pathArray) = handleBookClick d pathArray s"

definition run :: "dataset \<Rightarrow> environment \<Rightarrow> state \<Rightarrow> event list \<Rightarrow> state" where
  \<comment> \<open>the events are handled one after the other, each to completion\<close>
  "run d env doc es = foldl (dispatch d env) (load d env doc) es"


section \<open>The filter in words\<close>

text \<open>
  The filter as the specification words it, for comparison with \<^const>\<open>book_matches\<close>:
  a title contains a text case-insensitively when some segment of the title agrees with
  the text unit by unit, two units agreeing when they are lowered to the same string.
\<close>

definition spec_equal_ignoring_case :: "environment \<Rightarrow> code_units \<Rightarrow> code_units \<Rightarrow> bool" where
  "spec_equal_ignoring_case env s t =
     list_all2 (\<lambda>a b. toLowerCase env [a] = toLowerCase env [b]) s t"

definition spec_contains_ignoring_case :: "environment \<Rightarrow> code_units \<Rightarrow> code_units \<Rightarrow> bool" where
  "spec_contains_ignoring_case env s t =
     (\<exists>i \<in> {0..length s}. spec_equal_ignoring_case env (take (length t) (drop i s)) t)"

definition spec_satisfies :: "environment \<Rightarrow> filters \<Rightarrow> book \<Rightarrow> bool" where
  "spec_satisfies env fs b =
     ((filters.genre fs = ''any'' \<or> filters.genre fs \<in> set (book.genres b)) \<and>
      (trim (filters.title fs) = [] \<or>
       spec_contains_ignoring_case env (book.title b) (filters.title fs)) \<and>
      (filters.author fs = ''any'' \<or> book.author b = filters.author fs))"


definition rendered_count_ok :: "dataset \<Rightarrow> state \<Rightarrow> bool" where
  \<comment> \<open>the invariant of the data model on the number of rendered previews\<close>
  "rendered_count_ok d s =
     (length (list_items s) = min (page s * BOOKS_PER_PAGE d) (length (matches s)))"


section \<open>Lower-casing of Latin and Greek text\<close>

text \<open>
  \<open>String.prototype.toLowerCase\<close> on strings of Basic Latin, Latin-1 Supplement and
  Greek (U+0391 to U+03CE) code units, for the examples below; units outside these
  ranges are left as they are. A capital is moved to its small letter, 32 units up.
  The capital sigma U+03A3 becomes the final sigma U+03C2 instead of U+03C3 where the
  condition Final_Sigma of Unicode holds: a cased letter comes before it and none comes
  after it, case-ignorable characters skipped on both sides.
\<close>

definition lower_unit :: "int \<Rightarrow> int" where
  \<comment> \<open>A to Z; U+00C0 to U+00DE without U+00D7; U+0391 to U+03AB without U+03A2\<close>
  "lower_unit c =
     (if (65 \<le> c \<and> c \<le> 90) \<or> (192 \<le> c \<and> c \<le> 222 \<and> c \<noteq> 215) \<or>
         (913 \<le> c \<and> c \<le> 939 \<and> c \<noteq> 930)
      then c + 32 else c)"

definition cased :: "int \<Rightarrow> bool" where
  \<comment> \<open>the letters with a case in the three ranges\<close>
  "cased c =
     ((65 \<le> c \<and> c \<le> 90) \<or> (97 \<le> c \<and> c \<le> 122) \<or> c \<in> {170, 181, 186} \<or>
      (192 \<le> c \<and> c \<le> 255 \<and> c \<noteq> 215 \<and> c \<noteq> 247) \<or>
      (913 \<le> c \<and> c \<le> 974 \<and> c \<noteq> 930))"

definition case_ignorable :: "int \<Rightarrow> bool" where
  \<comment> \<open>apostrophe, full stop, colon, circumflex, grave; U+00A8, U+00AD, U+00AF, U+00B4,
      U+00B7, U+00B8\<close>
  "case_ignorable c = (c \<in> {39, 46, 58, 94, 96, 168, 173, 175, 180, 183, 184})"

definition next_is_cased :: "code_units \<Rightarrow> bool" where
  \<comment> \<open>the first character that is not case-ignorable is a cased letter\<close>
  "next_is_cased s = (case dropWhile case_ignorable s of [] \<Rightarrow> False | c # _ \<Rightarrow> cased c)"

definition final_sigma :: "code_units \<Rightarrow> code_units \<Rightarrow> bool" where
  \<comment> \<open>\<open>before\<close> is the text before the sigma, nearest unit first; \<open>after\<close> the text after it\<close>
  "final_sigma before after = (next_is_cased before \<and> \<not> next_is_cased after)"

fun lower_from :: "code_units \<Rightarrow> code_units \<Rightarrow> code_units" where
  "lower_from before [] = []"
| "lower_from before (c # rest) =
     (if c = 931 \<and> final_sigma before rest then 962 else lower_unit c) #
     lower_from (c # before) rest"

definition js_toLowerCase :: "code_units \<Rightarrow> code_units" where
  "js_toLowerCase s = lower_from [] s"


section \<open>A dataset of five books, and a Greek title\<close>

definition text_of :: "string \<Rightarrow> code_units" where
  \<comment> \<open>the code units of a string of Basic Latin characters\<close>
  "text_of s = map of_char s"

definition ex_book :: "string \<Rightarrow> string \<Rightarrow> string \<Rightarrow> string list \<Rightarrow> book" where
  "ex_book i t a gs =
     \<lparr>book.author = a, book_id = i, image = i @ ''.png'', book.title = text_of t,
      description = ''About '' @ t, published = ''1965-08-01'', book.genres = gs\<rparr>"

definition ex_b1 :: book where "ex_b1 = ex_book ''b1'' ''Dune'' ''a1'' [''g1'']"
definition ex_b2 :: book where "ex_b2 = ex_book ''b2'' ''The Dune Sea'' ''a2'' [''g1'', ''g2'']"
definition ex_b3 :: book where "ex_b3 = ex_book ''b3'' ''Emma'' ''a2'' [''g2'']"
definition ex_b4 :: book where "ex_b4 = ex_book ''b4'' ''DUNE MESSIAH'' ''a1'' [''g1'']"
definition ex_b5 :: book where "ex_b5 = ex_book ''b5'' ''Ulysses'' ''a3'' []"

definition ex_data :: dataset where
  "ex_data =
     \<lparr>books = [ex_b1, ex_b2, ex_b3, ex_b4, ex_b5],
      authors = [(''a1'', ''Frank Herbert''), (''a2'', ''Jane Austen'')],
      genres = [(''g1'', ''Science Fiction''), (''g2'', ''Classics'')],
      BOOKS_PER_PAGE = 2\<rparr>"

definition ex_doc :: state where
  "ex_doc =
     \<lparr>page = 0, matches = [], list_items = [], list_button_disabled = False,
      list_button_innerHTML = Text ''Show more'', list_message_show = False,
      search_overlay_open = False, settings_overlay_open = False, list_active_open = False,
      list_blur_src = [], list_image_src = [], list_title = [], list_subtitle = Text [],
      list_description = [], search_genres = [], search_authors = [],
      settings_theme = ''day'', color_dark = [], color_light = []\<rparr>"

definition ex_env :: environment where
  "ex_env = \<lparr>matchMedia = Some False, toLowerCase = js_toLowerCase\<rparr>"

definition ex_any :: filters where
  "ex_any = \<lparr>genre = ''any'', title = [], author = ''any''\<rparr>"

definition ex_padded :: filters where
  "ex_padded = \<lparr>genre = ''g1'', title = text_of '' dune'', author = ''any''\<rparr>"

definition ex_dune :: filters where
  "ex_dune = \<lparr>genre = ''any'', title = text_of ''dune'', author = ''any''\<rparr>"

definition ex_none :: filters where
  "ex_none = \<lparr>genre = ''any'', title = text_of ''zzz-no-match'', author = ''any''\<rparr>"

definition ex_path :: "string \<Rightarrow> node list" where
  \<comment> \<open>the path of a click inside the preview whose \<open>data-preview\<close> is \<open>x\<close>\<close>
  "ex_path x =
     [\<lparr>dataset_of = Some []\<rparr>,
      \<lparr>dataset_of = Some [(''preview'', x)]\<rparr>,
      \<lparr>dataset_of = Some [(''listItems'', [])]\<rparr>,
      \<lparr>dataset_of = None\<rparr>]"





section \<open>Properties of the building blocks\<close>

lemma slice_take_drop: "slice xs a b = take (b - a) (drop a xs)"
proof (rule nth_equalityI)
  show "length (slice xs a b) = length (take (b - a) (drop a xs))"
    by (simp add: slice_def Let_def)
next
  fix i assume "i < length (slice xs a b)"
  then show "slice xs a b ! i = take (b - a) (drop a xs) ! i"
    by (simp add: slice_def Let_def min_def split: if_splits)
qed

lemma length_slice: "length (slice xs a b) = min b (length xs) - min a (length xs)"
  by (simp add: slice_def Let_def)

lemma foldl_snoc_all: "foldl (\<lambda>acc x. acc @ [f x]) acc xs = acc @ map f xs"
  by (induction xs arbitrary: acc) simp_all

lemma appendElements_append: "appendElements parent elements = parent @ elements"
  using foldl_snoc_all [of "\<lambda>x. x" "[]" elements] by (simp add: appendElements_def)

lemma createElement_single:
  "createElement tg [(k, v)] inner = \<lparr>tag = tg, attributes = [(k, v)], innerHTML = inner\<rparr>"
  by (simp add: createElement_def setAttribute_def)

lemma length_createBookPreviews: "length (createBookPreviews bs auths) = length bs"
  by (simp add: createBookPreviews_def)

lemma createOptions_map:
  "createOptions data defaultOptionText =
     createElement ''option'' [(''value'', ''any'')] (Text defaultOptionText) #
     map (\<lambda>(ident, name). createElement ''option'' [(''value'', ident)] (Text name)) data"
proof -
  have "foldl (\<lambda>options (ident, name).
              options @ [createElement ''option'' [(''value'', ident)] (Text name)]) acc data =
        acc @ map (\<lambda>(ident, name). createElement ''option'' [(''value'', ident)] (Text name)) data"
    for acc
    by (induction data arbitrary: acc) (simp_all add: case_prod_beta)
  then show ?thesis by (simp add: createOptions_def)
qed

subsection \<open>Substrings\<close>

lemma includes_string_sublist: "includes_string s t \<longleftrightarrow> sublist t s"
  by (induction s) (simp_all add: sublist_Cons_right)

lemma sublist_take_drop:
  "sublist t s \<longleftrightarrow> (\<exists>i \<in> {0..length s}. take (length t) (drop i s) = t)"
proof
  assume "sublist t s"
  then obtain ps ss where "s = ps @ t @ ss" by (auto simp: sublist_def)
  then have "length ps \<le> length s" "take (length t) (drop (length ps) s) = t" by simp_all
  then show "\<exists>i \<in> {0..length s}. take (length t) (drop i s) = t" by auto
next
  assume "\<exists>i \<in> {0..length s}. take (length t) (drop i s) = t"
  then obtain i where i: "take (length t) (drop i s) = t" by auto
  have "drop i s = take (length t) (drop i s) @ drop (length t) (drop i s)"
    by (rule append_take_drop_id [symmetric])
  with i have "drop i s = t @ drop (length t) (drop i s)" by simp
  then have "take i s @ drop i s = take i s @ t @ drop (length t) (drop i s)" by simp
  then have "s = take i s @ t @ drop (length t) (drop i s)" by simp
  then show "sublist t s" unfolding sublist_def by blast
qed


text \<open>
  Where lowering acts unit by unit (\<open>toLowerCase env s = map f s\<close> for every \<open>s\<close>, as
  on text without capital sigma and without characters whose small form is longer),
  the test on the lowered strings is the containment ignoring case.
\<close>

lemma spec_equal_ignoring_case_map:
  assumes "\<And>s. toLowerCase env s = map f s"
  shows "spec_equal_ignoring_case env s t \<longleftrightarrow> map f s = map f t"
  unfolding spec_equal_ignoring_case_def
  by (induction s arbitrary: t) (auto simp: list_all2_Cons1 assms)

lemma book_matches_spec_satisfies:
  assumes "\<And>s. toLowerCase env s = map f s"
  shows "book_matches env fs b \<longleftrightarrow> spec_satisfies env fs b"
proof -
  have "sublist (map f t) (map f s) \<longleftrightarrow> spec_contains_ignoring_case env s t" for s t
    by (simp add: sublist_take_drop spec_contains_ignoring_case_def
        spec_equal_ignoring_case_map [OF assms] take_map drop_map)
  then show ?thesis
    by (simp add: book_matches_def spec_satisfies_def includes_array_def
        includes_string_sublist assms)
qed

lemma handleSearch_spec_match_set:
  assumes "\<And>s. toLowerCase env s = map f s"
  shows "matches (handleSearch d env fs s) = filter (spec_satisfies env fs) (books d)"
proof -
  have "book_matches env fs = spec_satisfies env fs"
    by (rule ext) (rule book_matches_spec_satisfies [OF assms])
  then show ?thesis by (simp add: handleSearch_def Let_def)
qed

subsection \<open>The rendered count, handler by handler\<close>

lemma rendered_count_handleSearch: "rendered_count_ok d (handleSearch d env fs s)"
  by (simp add: rendered_count_ok_def handleSearch_def Let_def appendElements_append
      length_createBookPreviews length_slice)

lemma rendered_count_handleShowMore:
  assumes "rendered_count_ok d s"
  shows "rendered_count_ok d (handleShowMore d s)"
proof -
  have "page s * BOOKS_PER_PAGE d \<le> (page s + 1) * BOOKS_PER_PAGE d" by simp
  then have "min (page s * BOOKS_PER_PAGE d) (length (matches s)) +
        (min ((page s + 1) * BOOKS_PER_PAGE d) (length (matches s)) -
         min (page s * BOOKS_PER_PAGE d) (length (matches s))) =
        min ((page s + 1) * BOOKS_PER_PAGE d) (length (matches s))"
    by (simp add: min_def)
  with assms show ?thesis
    by (simp add: rendered_count_ok_def handleShowMore_def Let_def appendElements_append
      length_createBookPreviews length_slice)
qed

lemma rendered_count_applyTheme:
  "rendered_count_ok d (applyTheme env s) = rendered_count_ok d s"
  by (simp add: rendered_count_ok_def applyTheme_def Let_def)

lemma rendered_count_load:
  assumes "list_items doc = []"
  shows "rendered_count_ok d (load d env doc)"
  using assms
  by (simp add: load_def initialize_def Let_def rendered_count_applyTheme)
     (simp add: rendered_count_ok_def appendElements_append length_createBookPreviews length_slice)

lemma rendered_count_dispatch:
  assumes "rendered_count_ok d s"
  shows "rendered_count_ok d (dispatch d env s e)"
proof (cases e)
  case (SettingsSubmit theme)
  with assms show ?thesis
    by (simp add: settings_form_submit_def Let_def)
       (simp add: rendered_count_ok_def applyTheme_def Let_def)
next
  case (SearchSubmit fs)
  then show ?thesis by (simp add: rendered_count_handleSearch)
next
  case ShowMore
  with assms show ?thesis by (simp add: rendered_count_handleShowMore)
next
  case (BookClick pathArray)
  with assms show ?thesis
    by (simp add: handleBookClick_def Let_def rendered_count_ok_def split: option.splits)
qed (use assms in \<open>simp_all add: rendered_count_ok_def\<close>)

subsection \<open>The list button and the lookup\<close>

lemma handleShowMore_button:
  "list_button_innerHTML (handleShowMore d s) =
     ShowMoreHtml (max (int (length (matches s)) - int ((page s + 1) * BOOKS_PER_PAGE d)) 0)"
  "list_button_disabled (handleShowMore d s) =
     (length (matches s) \<le> (page s + 1) * BOOKS_PER_PAGE d)"
  by (simp_all add: handleShowMore_def Let_def)

lemma find_book_Some:
  "find_book d (Some x) = Some b \<Longrightarrow> b \<in> set (books d) \<and> book_id b = x"
  by (auto simp: find_book_def find_Some_iff)

lemma find_book_None: "find_book d (Some x) = None \<longleftrightarrow> x \<notin> book_id ` set (books d)"
  by (auto simp: find_book_def find_None_iff)


section \<open>The claims\<close>




text \<open>
  C2. When the user submits a theme through the settings form, the applied theme should
  be the submitted one whatever the environment prefers. The listener writes the
  submitted value to the theme control and then calls \<open>applyTheme\<close>, which derives the
  theme from the environment again: with an environment that does not prefer the dark
  scheme, submitting \<open>night\<close> leaves the control at \<open>day\<close> and the day colours applied.
\<close>

theorem settings_submit_follows_environment:
  "settings_theme
     (settings_form_submit \<lparr>matchMedia = Some False, toLowerCase = js_toLowerCase\<rparr>
        ''night'' ex_doc) = ''day'' \<and>
   color_dark
     (settings_form_submit \<lparr>matchMedia = Some False, toLowerCase = js_toLowerCase\<rparr>
        ''night'' ex_doc) = ''10, 10, 20'' \<and>
   color_light
     (settings_form_submit \<lparr>matchMedia = Some False, toLowerCase = js_toLowerCase\<rparr>
        ''night'' ex_doc) = ''255, 255, 255''"
  by (simp add: settings_form_submit_def applyTheme_def Let_def)

text \<open>
  C3. Whatever happened before (the state \<open>s\<close> is arbitrary), a search sets the page
  cursor to 1, and the show-more click that follows appends the previews of the slice
  of the new match set that starts at index \<open>BOOKS_PER_PAGE\<close>: the slice depends neither
  on the cursor before the search nor on the full dataset.
\<close>

theorem search_then_show_more:
  "page (handleSearch d env fs s) = 1 \<and>
   list_items (handleShowMore d (handleSearch d env fs s)) =
     list_items (handleSearch d env fs s) @
     createBookPreviews
       (slice (matches (handleSearch d env fs s)) (BOOKS_PER_PAGE d) (2 * BOOKS_PER_PAGE d))
       (authors d)"
  by (simp add: handleShowMore_def Let_def appendElements_append mult_2)
     (simp add: handleSearch_def Let_def)

theorem search_then_show_more_witness:
  "page (run ex_data ex_env ex_doc [ShowMore, ShowMore]) = 3 \<and>
   page (handleSearch ex_data ex_env ex_any (run ex_data ex_env ex_doc [ShowMore, ShowMore])) = 1 \<and>
   list_items (handleShowMore ex_data
       (handleSearch ex_data ex_env ex_any (run ex_data ex_env ex_doc [ShowMore, ShowMore]))) =
     list_items (handleSearch ex_data ex_env ex_any (run ex_data ex_env ex_doc [ShowMore, ShowMore])) @
     createBookPreviews [ex_b3, ex_b4] (authors ex_data)"
proof -
  have p: "page (run ex_data ex_env ex_doc [ShowMore, ShowMore]) = 3" by code_simp
  have b: "BOOKS_PER_PAGE ex_data = 2" by code_simp
  have m: "slice (matches (handleSearch ex_data ex_env ex_any
             (run ex_data ex_env ex_doc [ShowMore, ShowMore]))) 2 (2 * 2) = [ex_b3, ex_b4]"
    by code_simp
  from search_then_show_more [of ex_data ex_env ex_any "run ex_data ex_env ex_doc [ShowMore, ShowMore]"]
  show ?thesis unfolding b m using p by simp
qed

text \<open>
  C4. For every match set and every page cursor \<open>c\<close> (in particular every \<open>c \<ge> 1\<close>),
  \<open>handleShowMore\<close> appends the previews of the slice from \<open>c * BOOKS_PER_PAGE\<close> up to
  \<open>(c + 1) * BOOKS_PER_PAGE\<close> of the match set, moves the cursor to \<open>c + 1\<close>, shows the
  remaining count \<open>max (|matches| - (c + 1) * BOOKS_PER_PAGE) 0\<close>, and disables the
  button exactly when \<open>|matches| \<le> (c + 1) * BOOKS_PER_PAGE\<close>.
\<close>

theorem handleShowMore_page:
  "list_items (handleShowMore d s) =
     list_items s @
     createBookPreviews
       (slice (matches s) (page s * BOOKS_PER_PAGE d) ((page s + 1) * BOOKS_PER_PAGE d))
       (authors d) \<and>
   page (handleShowMore d s) = page s + 1 \<and>
   matches (handleShowMore d s) = matches s \<and>
   list_button_innerHTML (handleShowMore d s) =
     ShowMoreHtml (max (int (length (matches s)) - int ((page s + 1) * BOOKS_PER_PAGE d)) 0) \<and>
   list_button_disabled (handleShowMore d s) =
     (length (matches s) \<le> (page s + 1) * BOOKS_PER_PAGE d)"
  by (simp add: handleShowMore_def Let_def appendElements_append)

theorem handleShowMore_page_witness:
  "list_items (handleShowMore ex_data (handleSearch ex_data ex_env ex_any ex_doc)) =
     list_items (handleSearch ex_data ex_env ex_any ex_doc) @
     createBookPreviews [ex_b3, ex_b4] (authors ex_data) \<and>
   page (handleShowMore ex_data (handleSearch ex_data ex_env ex_any ex_doc)) = 2 \<and>
   list_button_innerHTML (handleShowMore ex_data (handleSearch ex_data ex_env ex_any ex_doc)) =
     ShowMoreHtml 1 \<and>
   \<not> list_button_disabled (handleShowMore ex_data (handleSearch ex_data ex_env ex_any ex_doc))"
proof -
  have p: "page (handleSearch ex_data ex_env ex_any ex_doc) = 1" by code_simp
  have b: "BOOKS_PER_PAGE ex_data = 2" by code_simp
  have l: "length (matches (handleSearch ex_data ex_env ex_any ex_doc)) = 5" by code_simp
  have m: "slice (matches (handleSearch ex_data ex_env ex_any ex_doc)) (1 * 2) ((1 + 1) * 2) =
           [ex_b3, ex_b4]"
    by code_simp
  from handleShowMore_page [of ex_data "handleSearch ex_data ex_env ex_any ex_doc"]
  show ?thesis unfolding p b l m by simp
qed

text \<open>
  C5. After initialization and after every event handler, the number of previews in the
  list is \<open>min (page * BOOKS_PER_PAGE) |matches|\<close>. The document the script is loaded
  into is a parameter; its list container holds no preview before the script runs.
\<close>

theorem rendered_count_invariant:
  assumes "list_items doc = []"
  shows "length (list_items (run d env doc es)) =
         min (page (run d env doc es) * BOOKS_PER_PAGE d) (length (matches (run d env doc es)))"
proof -
  have "rendered_count_ok d (run d env doc es)"
  proof (induction es rule: rev_induct)
    case Nil
    from assms show ?case by (simp add: run_def rendered_count_load)
  next
    case (snoc e es)
    then show ?case by (simp add: run_def rendered_count_dispatch)
  qed
  then show ?thesis by (simp add: rendered_count_ok_def)
qed

theorem rendered_count_invariant_witness:
  "list_items ex_doc = [] \<and>
   length (list_items (run ex_data ex_env ex_doc [ShowMore, SearchSubmit ex_dune, ShowMore])) =
     min (page (run ex_data ex_env ex_doc [ShowMore, SearchSubmit ex_dune, ShowMore]) *
          BOOKS_PER_PAGE ex_data)
         (length (matches (run ex_data ex_env ex_doc [ShowMore, SearchSubmit ex_dune, ShowMore]))) \<and>
   page (run ex_data ex_env ex_doc [ShowMore, SearchSubmit ex_dune, ShowMore]) = 2 \<and>
   length (matches (run ex_data ex_env ex_doc [ShowMore, SearchSubmit ex_dune, ShowMore])) = 3"
proof -
  have e: "list_items ex_doc = []" by code_simp
  have p: "page (run ex_data ex_env ex_doc [ShowMore, SearchSubmit ex_dune, ShowMore]) = 2"
    by code_simp
  have l: "length (matches (run ex_data ex_env ex_doc [ShowMore, SearchSubmit ex_dune, ShowMore])) = 3"
    by code_simp
  from rendered_count_invariant [OF e, of ex_data ex_env "[ShowMore, SearchSubmit ex_dune, ShowMore]"]
  show ?thesis using e p l by simp
qed

text \<open>
  C6. After \<open>handleSearch\<close>, the no-results message is shown exactly when the match set
  is empty, the show-more button is disabled exactly when \<open>|matches| \<le> BOOKS_PER_PAGE\<close>,
  and the remaining count shown is \<open>max (|matches| - BOOKS_PER_PAGE) 0\<close>.
\<close>

theorem handleSearch_flags:
  "list_message_show (handleSearch d env fs s) = (length (matches (handleSearch d env fs s)) = 0) \<and>
   list_button_disabled (handleSearch d env fs s) =
     (length (matches (handleSearch d env fs s)) \<le> BOOKS_PER_PAGE d) \<and>
   list_button_innerHTML (handleSearch d env fs s) =
     ShowMoreHtml (max (int (length (matches (handleSearch d env fs s))) - int (BOOKS_PER_PAGE d)) 0)"
  by (simp add: handleSearch_def Let_def)

theorem handleSearch_flags_witness:
  "\<not> list_message_show (handleSearch ex_data ex_env ex_dune ex_doc) \<and>
   \<not> list_button_disabled (handleSearch ex_data ex_env ex_dune ex_doc) \<and>
   list_button_innerHTML (handleSearch ex_data ex_env ex_dune ex_doc) = ShowMoreHtml 1 \<and>
   list_message_show (handleSearch ex_data ex_env ex_none ex_doc) \<and>
   list_button_disabled (handleSearch ex_data ex_env ex_none ex_doc) \<and>
   list_button_innerHTML (handleSearch ex_data ex_env ex_none ex_doc) = ShowMoreHtml 0"
proof -
  have b: "BOOKS_PER_PAGE ex_data = 2" by code_simp
  have l: "length (matches (handleSearch ex_data ex_env ex_dune ex_doc)) = 3" by code_simp
  have n: "length (matches (handleSearch ex_data ex_env ex_none ex_doc)) = 0" by code_simp
  from handleSearch_flags [of ex_data ex_env ex_dune ex_doc]
    handleSearch_flags [of ex_data ex_env ex_none ex_doc]
  show ?thesis unfolding b l n by simp
qed

text \<open>
  C7. For every id token \<open>x\<close>, the lookup of the click handler finds a book exactly when
  \<open>x\<close> is the id of some book of the dataset, and the book found is one of the dataset
  with that id. When the lookup finds nothing the result is \<^const>\<open>None\<close>, not an
  error, and the handler leaves the page, the detail view included, as it was.
\<close>

theorem lookup_by_id:
  "(find_book d (Some x) \<noteq> None) = (\<exists>b \<in> set (books d). book_id b = x) \<and>
   (\<forall>b. find_book d (Some x) = Some b \<longrightarrow> b \<in> set (books d) \<and> book_id b = x) \<and>
   (find_book d (active_of pathArray) = None \<longrightarrow> handleBookClick d pathArray s = s)"
proof (intro conjI allI impI)
  show "(find_book d (Some x) \<noteq> None) = (\<exists>b \<in> set (books d). book_id b = x)"
    by (auto simp: find_book_None)
next
  fix b assume "find_book d (Some x) = Some b"
  then show "b \<in> set (books d)" "book_id b = x" by (simp_all add: find_book_Some)
next
  assume "find_book d (active_of pathArray) = None"
  then show "handleBookClick d pathArray s = s" by (simp add: handleBookClick_def)
qed

theorem lookup_by_id_witness:
  "find_book ex_data (Some ''b3'') = Some ex_b3 \<and> ex_b3 \<in> set (books ex_data) \<and>
   book_id ex_b3 = ''b3'' \<and>
   find_book ex_data (active_of (ex_path ''b9'')) = None \<and>
   \<not> (\<exists>b \<in> set (books ex_data). book_id b = ''b9'') \<and>
   handleBookClick ex_data (ex_path ''b9'') ex_doc = ex_doc"
proof -
  have f: "find_book ex_data (Some ''b3'') = Some ex_b3" by code_simp
  have a: "active_of (ex_path ''b9'') = Some ''b9''" by code_simp
  have n: "find_book ex_data (Some ''b9'') = None" by code_simp
  from lookup_by_id [of ex_data "''b3''" "ex_path ''b9''" ex_doc]
    lookup_by_id [of ex_data "''b9''" "ex_path ''b9''" ex_doc]
  show ?thesis unfolding a f n by simp
qed

text \<open>
  C8. A show-more click on an exhausted match set (\<open>|matches| \<le> page * BOOKS_PER_PAGE\<close>)
  does not fail: the slice is empty, the list and the match set stay as they are, the
  cursor still advances and the button is disabled with a remaining count of 0. A
  search has no failing criteria either: when no book matches, the result is the empty
  list with the no-results message shown.
\<close>

theorem no_failure_when_exhausted:
  "(length (matches s) \<le> page s * BOOKS_PER_PAGE d \<longrightarrow>
      slice (matches s) (page s * BOOKS_PER_PAGE d) ((page s + 1) * BOOKS_PER_PAGE d) = [] \<and>
      list_items (handleShowMore d s) = list_items s \<and>
      matches (handleShowMore d s) = matches s \<and>
      page (handleShowMore d s) = page s + 1 \<and>
      list_button_disabled (handleShowMore d s) \<and>
      list_button_innerHTML (handleShowMore d s) = ShowMoreHtml 0) \<and>
   (filter (book_matches env fs) (books d) = [] \<longrightarrow>
      matches (handleSearch d env fs s') = [] \<and>
      list_items (handleSearch d env fs s') = [] \<and>
      page (handleSearch d env fs s') = 1 \<and>
      list_message_show (handleSearch d env fs s') \<and>
      list_button_disabled (handleSearch d env fs s') \<and>
      list_button_innerHTML (handleSearch d env fs s') = ShowMoreHtml 0)"
proof (intro conjI impI)
  assume ex: "length (matches s) \<le> page s * BOOKS_PER_PAGE d"
  then show e: "slice (matches s) (page s * BOOKS_PER_PAGE d) ((page s + 1) * BOOKS_PER_PAGE d) = []"
    by (simp add: slice_take_drop)
  then show "list_items (handleShowMore d s) = list_items s"
    by (simp add: handleShowMore_def Let_def appendElements_append createBookPreviews_def)
  show "matches (handleShowMore d s) = matches s" "page (handleShowMore d s) = page s + 1"
    by (simp_all add: handleShowMore_def Let_def)
  from ex have le: "length (matches s) \<le> (page s + 1) * BOOKS_PER_PAGE d" by simp
  then have "int (length (matches s)) - int ((page s + 1) * BOOKS_PER_PAGE d) \<le> 0"
    by linarith
  then have "max (int (length (matches s)) - int ((page s + 1) * BOOKS_PER_PAGE d)) 0 = 0"
    by (rule max_absorb2)
  with le show "list_button_disabled (handleShowMore d s)"
    "list_button_innerHTML (handleShowMore d s) = ShowMoreHtml 0"
    by (simp_all only: handleShowMore_button)
next
  assume "filter (book_matches env fs) (books d) = []"
  then show "matches (handleSearch d env fs s') = []" "list_items (handleSearch d env fs s') = []"
    "page (handleSearch d env fs s') = 1" "list_message_show (handleSearch d env fs s')"
    "list_button_disabled (handleSearch d env fs s')"
    "list_button_innerHTML (handleSearch d env fs s') = ShowMoreHtml 0"
    by (simp_all add: handleSearch_def Let_def appendElements_append createBookPreviews_def
        slice_take_drop)
qed

theorem no_failure_when_exhausted_witness:
  "length (matches (run ex_data ex_env ex_doc [ShowMore, ShowMore])) \<le>
     page (run ex_data ex_env ex_doc [ShowMore, ShowMore]) * BOOKS_PER_PAGE ex_data \<and>
   list_items (handleShowMore ex_data (run ex_data ex_env ex_doc [ShowMore, ShowMore])) =
     list_items (run ex_data ex_env ex_doc [ShowMore, ShowMore]) \<and>
   page (handleShowMore ex_data (run ex_data ex_env ex_doc [ShowMore, ShowMore])) = 4 \<and>
   filter (book_matches ex_env ex_none) (books ex_data) = [] \<and>
   list_items (handleSearch ex_data ex_env ex_none ex_doc) = [] \<and>
   list_message_show (handleSearch ex_data ex_env ex_none ex_doc)"
proof -
  have p: "page (run ex_data ex_env ex_doc [ShowMore, ShowMore]) = 3" by code_simp
  have b: "BOOKS_PER_PAGE ex_data = 2" by code_simp
  have l: "length (matches (run ex_data ex_env ex_doc [ShowMore, ShowMore])) = 5" by code_simp
  have n: "filter (book_matches ex_env ex_none) (books ex_data) = []" by code_simp
  from no_failure_when_exhausted
    [of "run ex_data ex_env ex_doc [ShowMore, ShowMore]" ex_data ex_env ex_none ex_doc]
  show ?thesis unfolding p b l n by simp
qed

text \<open>
  C9. For every mapping, given by its entries in iteration order, and every default
  label, \<open>createOptions\<close> returns the option with value \<open>any\<close> and the label as content,
  followed by one option per entry, in the order of the entries, with the entry's id
  as value and its name as content.
\<close>

theorem createOptions_sequence:
  "createOptions data label =
     \<lparr>tag = ''option'', attributes = [(''value'', ''any'')], innerHTML = Text label\<rparr> #
     map (\<lambda>(ident, name).
            \<lparr>tag = ''option'', attributes = [(''value'', ident)], innerHTML = Text name\<rparr>) data"
  by (simp add: createOptions_map createElement_single)

theorem createOptions_sequence_witness:
  "createOptions (dataset.genres ex_data) ''All Genres'' =
     [\<lparr>tag = ''option'', attributes = [(''value'', ''any'')], innerHTML = Text ''All Genres''\<rparr>,
      \<lparr>tag = ''option'', attributes = [(''value'', ''g1'')], innerHTML = Text ''Science Fiction''\<rparr>,
      \<lparr>tag = ''option'', attributes = [(''value'', ''g2'')], innerHTML = Text ''Classics''\<rparr>]"
proof -
  have g: "dataset.genres ex_data = [(''g1'', ''Science Fiction''), (''g2'', ''Classics'')]"
    by code_simp
  from createOptions_sequence [of "dataset.genres ex_data" "''All Genres''"]
  show ?thesis unfolding g by simp
qed

text \<open>
  C10. Trimming the title criterion decides only whether the title test applies. When
  the criterion is not empty after trimming, a book is in the match set exactly when it
  is in the dataset, passes the genre and author tests, and its lowered title contains
  the whole lowered criterion, surrounding whitespace included, as a substring; so a
  book matches only if its title contains the padded criterion, and containing the
  trimmed term is not enough.
\<close>

theorem padded_title_matched_literally:
  assumes "trim (filters.title fs) \<noteq> []"
  shows "b \<in> set (matches (handleSearch d env fs s)) \<longleftrightarrow>
         b \<in> set (books d) \<and>
         (filters.genre fs = ''any'' \<or> filters.genre fs \<in> set (book.genres b)) \<and>
         sublist (toLowerCase env (filters.title fs)) (toLowerCase env (book.title b)) \<and>
         (filters.author fs = ''any'' \<or> book.author b = filters.author fs)"
  using assms
  by (simp add: handleSearch_def Let_def book_matches_def includes_string_sublist
      includes_array_def)

theorem padded_title_matched_literally_witness:
  "trim (filters.title ex_padded) \<noteq> [] \<and>
   ex_b2 \<in> set (matches (handleSearch ex_data ex_env ex_padded ex_doc)) \<and>
   sublist (toLowerCase ex_env (filters.title ex_padded))
     (toLowerCase ex_env (book.title ex_b2)) \<and>
   ex_b1 \<notin> set (matches (handleSearch ex_data ex_env ex_padded ex_doc)) \<and>
   sublist (toLowerCase ex_env (trim (filters.title ex_padded)))
     (toLowerCase ex_env (book.title ex_b1))"
proof -
  have t: "trim (filters.title ex_padded) \<noteq> []" by code_simp
  have m: "ex_b2 \<in> set (matches (handleSearch ex_data ex_env ex_padded ex_doc))" by code_simp
  have n: "ex_b1 \<notin> set (matches (handleSearch ex_data ex_env ex_padded ex_doc))" by code_simp
  have s: "sublist (toLowerCase ex_env (trim (filters.title ex_padded)))
             (toLowerCase ex_env (book.title ex_b1))"
    by code_simp
  from padded_title_matched_literally [OF t, of ex_b2 ex_data ex_env ex_doc] t m n s
  show ?thesis by simp
qed

end
